theory Spec2Isabelle
  imports Main "HOL-Library.Word"
begin

unbundle bit_operations_syntax

section \<open>Images and the file system\<close>

text \<open>
  The engine of \<^verbatim>\<open>utils/stego_engine.py\<close> works on image files through the imaging
  library. The library opens a file lazily: \<^verbatim>\<open>Image.open\<close> identifies the file and
  reads its header (format, mode, size, metadata); the pixel data is read only when an
  operation needs it (\<^verbatim>\<open>convert\<close>, \<^verbatim>\<open>getdata\<close>, \<^verbatim>\<open>copy\<close>), and reading it raises
  when the body of the file is truncated or damaged. An image is therefore modelled by
  its header fields together with what loading its body gives: the pixel data, or the
  exception.

  A channel value is a Python integer. The pixel data is a flat list in the order of
  \<^verbatim>\<open>img.getdata()\<close> (row by row), so the pixel at column \<open>c\<close> and row \<open>r\<close> is
  entry \<open>r * width + c\<close>.

  \<^item> \<open>RGB\<close> and \<open>RGBA\<close> are the pixel data of the two modes the engine keeps as they
    are.
  \<^item> \<open>Other native rgb\<close> is the pixel data of an image of any other mode (such as
    \<^verbatim>\<open>L\<close>, \<^verbatim>\<open>P\<close>, \<^verbatim>\<open>CMYK\<close>): \<open>native\<close> is its own data (one list of channel
    values per pixel) and \<open>rgb\<close> is what \<^verbatim>\<open>img.convert('RGB')\<close> gives for it, the
    converted data or the exception of a mode that has no conversion. The colour
    conversion of the imaging library is not computed here; its result is part of the
    data.
\<close>

type_synonym path = string

type_synonym rgb = "int \<times> int \<times> int"

datatype lib_error =
    UnidentifiedImageError
  | FileNotFoundError
  | OSError
  | ValueError
  | EmptyNameError
  | AssertionError
  | NotRGBError
  | MessageTooLongError nat
  | IndexError
  | TypeError
  | KeyError
  | BinasciiError
  | UnicodeDecodeError
  | JSONDecodeError
  | UnsupportedJSON
  | InvalidTag
  | OverflowError

datatype pixel_data =
    RGB "rgb list"
  | RGBA "(rgb \<times> int) list"
  | Other "int list list" "lib_error + rgb list"

record image =
  format :: "string option"
  mode :: string
  width :: nat
  height :: nat
  info :: "(string \<times> string) list"
  body :: "lib_error + pixel_data"

text \<open>
  A path holds an image file, a file that the imaging library does not identify as an
  image, or nothing. The size of a file in bytes is not modelled, so the statistics
  derived from \<^verbatim>\<open>os.path.getsize\<close> (\<^verbatim>\<open>size_kb\<close>, \<^verbatim>\<open>cover_size_kb\<close>,
  \<^verbatim>\<open>stego_size_kb\<close>) are left out; that \<^verbatim>\<open>getsize\<close> fails on a missing file is kept.
\<close>

datatype file_content = ImageFile image | NotAnImage

type_synonym fs = "path \<rightharpoonup> file_content"

definition exists :: "fs \<Rightarrow> path \<Rightarrow> bool" where
  "exists fs p = (fs p \<noteq> None)"

text \<open>\<^verbatim>\<open>Image.open\<close>: the header is read, the body is not.\<close>

definition Image_open :: "fs \<Rightarrow> path \<Rightarrow> lib_error + image" where
  "Image_open fs p =
     (case fs p of
        None \<Rightarrow> Inl FileNotFoundError
      | Some NotAnImage \<Rightarrow> Inl UnidentifiedImageError
      | Some (ImageFile img) \<Rightarrow> Inr img)"

text \<open>
  \<^verbatim>\<open>img.convert('RGB')\<close> loads the pixel data and converts it. The result is a new
  image in memory, which has no format tag.
\<close>

definition convert_RGB :: "image \<Rightarrow> lib_error + image" where
  "convert_RGB img =
     (case body img of
        Inl e \<Rightarrow> Inl e
      | Inr (RGB ps) \<Rightarrow> Inr (img\<lparr>format := None, mode := ''RGB''\<rparr>)
      | Inr (RGBA ps) \<Rightarrow>
          Inr (img\<lparr>format := None, mode := ''RGB'', body := Inr (RGB (map fst ps))\<rparr>)
      | Inr (Other native conv) \<Rightarrow>
          (case conv of
             Inl e \<Rightarrow> Inl e
           | Inr ps \<Rightarrow> Inr (img\<lparr>format := None, mode := ''RGB'', body := Inr (RGB ps)\<rparr>)))"

definition npixels :: "pixel_data \<Rightarrow> nat" where
  "npixels d =
     (case d of RGB ps \<Rightarrow> length ps | RGBA ps \<Rightarrow> length ps | Other native conv \<Rightarrow> length native)"

text \<open>
  The invariant of an image whose body loads: the pixel data is that of the mode in the
  header, it has one entry per pixel, and so has its RGB conversion.
\<close>

definition wf_image :: "image \<Rightarrow> bool" where
  "wf_image img =
     (case body img of
        Inl e \<Rightarrow> True
      | Inr d \<Rightarrow>
          npixels d = width img * height img \<and>
          (case d of
             RGB ps \<Rightarrow> mode img = ''RGB''
           | RGBA ps \<Rightarrow> mode img = ''RGBA''
           | Other native conv \<Rightarrow>
               mode img \<noteq> ''RGB'' \<and> mode img \<noteq> ''RGBA'' \<and>
               (case conv of Inl e \<Rightarrow> True | Inr ps \<Rightarrow> length ps = length native)))"

section \<open>Validation and capacity\<close>

text \<open>
  The statistics dictionary: keys to values. A value is an integer, a string, or the
  float quotient of two integers (\<open>QuotV a b\<close> stands for Python's \<^verbatim>\<open>a / b\<close>).
\<close>

datatype sval = IntV int | StrV string | QuotV int int

type_synonym stats = "string \<rightharpoonup> sval"

text \<open>The messages of \<^verbatim>\<open>validate_image\<close>, by their content.\<close>

datatype message =
    NotFoundMsg
  | FormatNotSupportedMsg string
  | TooSmallMsg nat nat
  | InsufficientCapacityMsg int
  | ValidMsg nat nat int
  | InvalidImageMsg lib_error

definition SUPPORTED_FORMATS :: "string list" where
  "SUPPORTED_FORMATS = [''PNG'', ''BMP'', ''TIFF'']"

definition MIN_DIMENSION :: nat where
  "MIN_DIMENSION = 100"

definition METADATA_OVERHEAD :: int where
  "METADATA_OVERHEAD = 200"

text \<open>
  \<^verbatim>\<open>calculate_capacity\<close> opens the file, and loads its body only to convert an image
  that is neither RGB nor RGBA. An exception of either step leaves the function.
\<close>

definition calculate_capacity :: "fs \<Rightarrow> path \<Rightarrow> lib_error + int" where
  "calculate_capacity fs image_path =
     (case Image_open fs image_path of
        Inl e \<Rightarrow> Inl e
      | Inr img0 \<Rightarrow>
          let w = width img0; h = height img0 in
            case (if mode img0 \<notin> set [''RGB'', ''RGBA''] then convert_RGB img0 else Inr img0) of
              Inl e \<Rightarrow> Inl e
            | Inr img \<Rightarrow>
                let channels = (if mode img = ''RGB'' then 3 else 4);
                    total_bits = int w * int h * channels;
                    max_bytes = (total_bits div 8) - METADATA_OVERHEAD
                in Inr max_bytes)"

text \<open>
  \<^verbatim>\<open>validate_image\<close> runs its whole body under \<^verbatim>\<open>try\<close> and turns every exception
  into a verdict. \<open>validate_image_body\<close> is the body, with the exceptions of the library
  calls as \<open>Inl\<close>. \<open>validate_image\<close> is the body under its handler; its result keeps the
  type of an outcome (an exception that leaves the function, or a returned triple), so
  that not raising is a property of the function and not of its type.
\<close>

definition validate_image_body :: "fs \<Rightarrow> path \<Rightarrow> lib_error + (bool \<times> message \<times> stats)" where
  "validate_image_body fs image_path =
     (if \<not> exists fs image_path then Inr (False, NotFoundMsg, Map.empty)
      else
        case Image_open fs image_path of
          Inl e \<Rightarrow> Inl e
        | Inr img \<Rightarrow>
            let w = width img; h = height img;
                format_name = (case format img of Some f \<Rightarrow> f | None \<Rightarrow> ''Unknown'');
                stats = [''width'' \<mapsto> IntV (int w),
                         ''height'' \<mapsto> IntV (int h),
                         ''format'' \<mapsto> StrV format_name,
                         ''mode'' \<mapsto> StrV (mode img),
                         ''pixels'' \<mapsto> IntV (int w * int h)]
            in
              if format_name \<notin> set SUPPORTED_FORMATS
              then Inr (False, FormatNotSupportedMsg format_name, stats)
              else if w < MIN_DIMENSION \<or> h < MIN_DIMENSION
              then Inr (False, TooSmallMsg w h, stats)
              else
                case calculate_capacity fs image_path of
                  Inl e \<Rightarrow> Inl e
                | Inr capacity \<Rightarrow>
                    let stats' = stats(''capacity_bytes'' \<mapsto> IntV capacity,
                                       ''capacity_kb'' \<mapsto> QuotV capacity 1024)
                    in
                      if capacity < 1000
                      then Inr (False, InsufficientCapacityMsg capacity, stats')
                      else Inr (True, ValidMsg w h capacity, stats'))"

definition validate_image :: "fs \<Rightarrow> path \<Rightarrow> lib_error + (bool \<times> message \<times> stats)" where
  "validate_image fs image_path =
     (case validate_image_body fs image_path of
        Inl e \<Rightarrow> Inr (False, InvalidImageMsg e, Map.empty)
      | Inr result \<Rightarrow> Inr result)"

section \<open>Paths\<close>

text \<open>
  Paths are strings in the form \<^verbatim>\<open>pathlib\<close> prints them (\<^verbatim>\<open>str(Path(p)) = p\<close>), with
  \<^verbatim>\<open>/\<close> as the separator. \<open>path_suffix\<close> is \<^verbatim>\<open>Path.suffix\<close>: the part of the final
  component from its last dot, when that dot is neither its first nor its last character.
  \<open>with_suffix\<close> is \<^verbatim>\<open>Path.with_suffix\<close>, which refuses a path with an empty name.
\<close>

definition path_name :: "path \<Rightarrow> string" where
  "path_name p = rev (takeWhile (\<lambda>c. c \<noteq> CHR ''/'') (rev p))"

definition path_suffix :: "path \<Rightarrow> string" where
  "path_suffix p =
     (let name = path_name p;
          ext = rev (takeWhile (\<lambda>c. c \<noteq> CHR ''.'') (rev name))
      in if CHR ''.'' \<in> set name \<and> ext \<noteq> [] \<and> length ext + 1 < length name
         then CHR ''.'' # ext else [])"

definition with_suffix :: "path \<Rightarrow> string \<Rightarrow> lib_error + path" where
  "with_suffix p suffix =
     (if path_name p = [] then Inl EmptyNameError
      else Inr (take (length p - length (path_suffix p)) p @ suffix))"

section \<open>Preparing the cover\<close>

text \<open>Saving writes the image in memory to the path; the file then carries the PNG tag.\<close>

definition save_png :: "fs \<Rightarrow> path \<Rightarrow> image \<Rightarrow> fs" where
  "save_png fs p img = fs(p \<mapsto> ImageFile (img\<lparr>format := Some ''PNG''\<rparr>))"

definition remove :: "fs \<Rightarrow> path \<Rightarrow> fs" where
  "remove fs p = fs(p := None)"

text \<open>
  \<^verbatim>\<open>prepare_image\<close> returns the file system it leaves behind together with the path of
  the prepared image, or the exception of the library call that failed. It reads the
  pixel data (\<^verbatim>\<open>img.getdata()\<close>), which loads the body, and puts it into a new image of
  the same mode and size.
\<close>

definition prepare_image :: "fs \<Rightarrow> path \<Rightarrow> path option \<Rightarrow> fs \<times> (lib_error + path)" where
  "prepare_image fs image_path output_path =
     (case Image_open fs image_path of
        Inl e \<Rightarrow> (fs, Inl e)
      | Inr img0 \<Rightarrow>
          (case (if mode img0 \<notin> set [''RGB'', ''RGBA''] then convert_RGB img0 else Inr img0) of
             Inl e \<Rightarrow> (fs, Inl e)
           | Inr img \<Rightarrow>
               (case body img of
                  Inl e \<Rightarrow> (fs, Inl e)
                | Inr data \<Rightarrow>
                    let clean_img = \<lparr>format = None, mode = mode img, width = width img,
                                     height = height img, info = [], body = Inr data\<rparr>
                    in
                      case (case output_path of
                              None \<Rightarrow> with_suffix image_path ''.png''
                            | Some p \<Rightarrow> Inr p) of
                        Inl e \<Rightarrow> (fs, Inl e)
                      | Inr out \<Rightarrow> (save_png fs out clean_img, Inr out))))"

section \<open>The embedding library\<close>

text \<open>
  Modelled from the spec: the embedding scheme of the imported library
  (\<^verbatim>\<open>from stegano import lsb\<close>), whose code is not part of the repository. The spec
  asks for a self-delimiting encoding of the payload written to the least significant
  bits of a fixed row-major traversal, and a reader that follows the same traversal until
  the embedded length is satisfied. The definitions below follow the library's scheme:
  \<^item> the text embedded is the decimal length of the message, a colon, and the message;
  \<^item> each character gives the eight bits of its code point, most significant first, and
    the bit string is padded with zeros to a multiple of three;
  \<^item> pixel \<open>n\<close> of the traversal carries three bits in the least significant bits of its
    red, green and blue values; an alpha value is never touched;
  \<^item> the library refuses an empty message, and a bit string longer than three bits per
    pixel.

  Python strings are modelled as Isabelle strings: a character is a code point up to 255.
  The payloads the application embeds are base64 text.
\<close>

definition setlsb :: "int \<Rightarrow> bool \<Rightarrow> int" where
  "setlsb component b = (component AND NOT 1) OR of_bool b"

definition ord :: "char \<Rightarrow> nat" where
  "ord c = of_char c"

definition a2bits :: "char \<Rightarrow> bool list" where
  "a2bits c =
     [bit (ord c) 7, bit (ord c) 6, bit (ord c) 5, bit (ord c) 4,
      bit (ord c) 3, bit (ord c) 2, bit (ord c) 1, bit (ord c) 0]"

definition a2bits_list :: "string \<Rightarrow> bool list" where
  "a2bits_list chars = concat (map a2bits chars)"

text \<open>\<open>str\<close> of a natural number: its decimal digits.\<close>

fun str :: "nat \<Rightarrow> string" where
  "str n = (if n < 10 then [char_of (48 + n)] else str (n div 10) @ [char_of (48 + n mod 10)])"

definition message_bits :: "string \<Rightarrow> bool list" where
  "message_bits message =
     (let bits = a2bits_list (str (length message) @ '':'' @ message)
      in bits @ replicate ((3 - (length bits mod 3)) mod 3) False)"

text \<open>
  The writer's loop: while three more bits are left, the next pixel of the traversal
  takes them. Reading a pixel past the end of the image raises.
\<close>

fun encode_pixels :: "bool list \<Rightarrow> rgb list \<Rightarrow> lib_error + rgb list" where
  "encode_pixels (b0 # b1 # b2 # bits) ps =
     (case ps of
        [] \<Rightarrow> Inl IndexError
      | (r, g, b) # ps' \<Rightarrow>
          (case encode_pixels bits ps' of
             Inl e \<Rightarrow> Inl e
           | Inr qs \<Rightarrow> Inr ((setlsb r b0, setlsb g b1, setlsb b b2) # qs)))"
| "encode_pixels bits ps = Inr ps"

text \<open>
  \<^verbatim>\<open>lsb.hide(path, message)\<close>. The library checks the message, opens the image, and
  copies it, which loads the body. For an image that is neither RGB nor RGBA it asks on
  the console whether to convert it; that question is modelled as a failure. The engine
  never reaches it: it passes the prepared image.
\<close>

definition lsb_hide :: "fs \<Rightarrow> path \<Rightarrow> string \<Rightarrow> lib_error + image" where
  "lsb_hide fs image_path message =
     (if length message = 0 then Inl AssertionError
      else
        case Image_open fs image_path of
          Inl e \<Rightarrow> Inl e
        | Inr img \<Rightarrow>
            if mode img \<notin> set [''RGB'', ''RGBA''] then Inl NotRGBError
            else
              case body img of
                Inl e \<Rightarrow> Inl e
              | Inr data \<Rightarrow>
                  let bits = message_bits message in
                    if length bits > width img * height img * 3
                    then Inl (MessageTooLongError (length message))
                    else
                      case data of
                        Other native conv \<Rightarrow> Inl TypeError
                      | RGB ps \<Rightarrow>
                          (case encode_pixels bits ps of
                             Inl e \<Rightarrow> Inl e
                           | Inr qs \<Rightarrow> Inr (img\<lparr>body := Inr (RGB qs)\<rparr>))
                      | RGBA ps \<Rightarrow>
                          (case encode_pixels bits (map fst ps) of
                             Inl e \<Rightarrow> Inl e
                           | Inr qs \<Rightarrow> Inr (img\<lparr>body := Inr (RGBA (zip qs (map snd ps)))\<rparr>)))"


definition isdigit :: "string \<Rightarrow> bool" where
  "isdigit s = (s \<noteq> [] \<and> list_all (\<lambda>c. 48 \<le> ord c \<and> ord c \<le> 57) s)"

definition int_of_str :: "string \<Rightarrow> nat" where
  "int_of_str s = foldl (\<lambda>n c. 10 * n + (ord c - 48)) 0 s"









section \<open>Hiding and revealing\<close>

text \<open>
  Every failure of the engine is a \<^verbatim>\<open>ValueError\<close> with a message, or the exception of
  a library call that the engine lets through. They are told apart by the spec's names.
\<close>

datatype error =
    InvalidCover message
  | PayloadTooLarge nat int
  | ImageNotFound
  | ExtractionFailed "lib_error option"
  | Library lib_error

definition utf8_encode :: "string \<Rightarrow> char list" where
  "utf8_encode s =
     concat (map (\<lambda>c. if ord c < 128 then [c]
                       else [char_of (192 + ord c div 64), char_of (128 + ord c mod 64)]) s)"

text \<open>
  \<^verbatim>\<open>hide\<close> returns the file system it leaves behind, whether it returns or raises: the
  files written before an exception stay written.
\<close>

definition hide :: "fs \<Rightarrow> path \<Rightarrow> string \<Rightarrow> path \<Rightarrow> fs \<times> (error + stats)" where
  "hide fs cover_path secret_data output_path =
     (case validate_image fs cover_path of
        Inl e \<Rightarrow> (fs, Inl (Library e))
      | Inr (False, msg, stats) \<Rightarrow> (fs, Inl (InvalidCover msg))
      | Inr (True, msg, stats) \<Rightarrow>
          let data_size = length (utf8_encode secret_data) in
            case stats ''capacity_bytes'' of
              Some (IntV capacity) \<Rightarrow>
                if int data_size > capacity
                then (fs, Inl (PayloadTooLarge data_size capacity))
                else
                  (case prepare_image fs cover_path None of
                     (fs1, Inl e) \<Rightarrow> (fs1, Inl (Library e))
                   | (fs1, Inr prepared_path) \<Rightarrow>
                       (case lsb_hide fs1 prepared_path secret_data of
                          Inl e \<Rightarrow> (fs1, Inl (Library e))
                        | Inr stego_img \<Rightarrow>
                            let fs2 = save_png fs1 output_path stego_img;
                                fs3 = (if prepared_path \<noteq> cover_path \<and> exists fs2 prepared_path
                                       then remove fs2 prepared_path else fs2)
                            in
                              if \<not> exists fs3 output_path
                              then (fs3, Inl (Library FileNotFoundError))
                              else
                                (fs3, Inr [''payload_bytes'' \<mapsto> IntV (int data_size),
                                           ''payload_kb'' \<mapsto> QuotV (int data_size) 1024,
                                           ''capacity_used_percent'' \<mapsto>
                                              QuotV (int data_size * 100) capacity,
                                           ''dimensions'' \<mapsto>
                                              (case (stats ''width'', stats ''height'') of
                                                 (Some (IntV w), Some (IntV h)) \<Rightarrow>
                                                   StrV (str (nat w) @ ''x'' @ str (nat h))
                                               | _ \<Rightarrow> StrV []),
                                           ''format'' \<mapsto>
                                              (case stats ''format'' of
                                                 Some v \<Rightarrow> v | None \<Rightarrow> StrV [])])))
            | _ \<Rightarrow> (fs, Inl (Library KeyError)))"


section \<open>Example files\<close>

text \<open>
  An upload directory used to run the engine on concrete inputs: a 100 by 100 RGB bitmap;
  a 100 by 100 RGBA image and a 100 by 100 greyscale scan with a resolution tag, both
  named \<^verbatim>\<open>.png\<close>; a 50 by 50 icon; a text file; and two 200 by 200 files whose header
  is intact and whose body is truncated, one RGB and one greyscale.
\<close>

definition rgb_cover :: image where
  "rgb_cover = \<lparr>format = Some ''BMP'', mode = ''RGB'', width = 100, height = 100, info = [],
                 body = Inr (RGB (replicate 10000 (0, 0, 0)))\<rparr>"

definition rgba_cover :: image where
  "rgba_cover = \<lparr>format = Some ''PNG'', mode = ''RGBA'', width = 100, height = 100, info = [],
                  body = Inr (RGBA (replicate 10000 ((0, 0, 0), 255)))\<rparr>"

definition grey_cover :: image where
  "grey_cover = \<lparr>format = Some ''PNG'', mode = ''L'', width = 100, height = 100,
                  info = [(''dpi'', ''300'')],
                  body = Inr (Other (replicate 10000 [7]) (Inr (replicate 10000 (7, 7, 7))))\<rparr>"

definition small_icon :: image where
  "small_icon = \<lparr>format = Some ''PNG'', mode = ''RGB'', width = 50, height = 50, info = [],
                  body = Inr (RGB (replicate 2500 (0, 0, 0)))\<rparr>"

definition torn_photo :: image where
  "torn_photo = \<lparr>format = Some ''PNG'', mode = ''RGB'', width = 200, height = 200, info = [],
                  body = Inl OSError\<rparr>"

definition torn_scan :: image where
  "torn_scan = \<lparr>format = Some ''PNG'', mode = ''L'', width = 200, height = 200, info = [],
                 body = Inl OSError\<rparr>"

definition uploads :: fs where
  "uploads = [''uploads/photo.bmp'' \<mapsto> ImageFile rgb_cover,
              ''uploads/logo.png'' \<mapsto> ImageFile rgba_cover,
              ''uploads/scan.png'' \<mapsto> ImageFile grey_cover,
              ''uploads/icon.png'' \<mapsto> ImageFile small_icon,
              ''uploads/torn.png'' \<mapsto> ImageFile torn_photo,
              ''uploads/torn_scan.png'' \<mapsto> ImageFile torn_scan,
              ''uploads/notes.txt'' \<mapsto> NotAnImage]"

section \<open>Text encodings\<close>

text \<open>
  Python \<^verbatim>\<open>bytes\<close> are lists of 8-bit characters. The dictionaries of the encryption
  engine hold strings and integers; a dictionary keeps its keys in insertion order, and
  assigning to a key that is present replaces its value in place.
\<close>

type_synonym bytes = "char list"

datatype jval = JStr string | JInt int

type_synonym dict = "(string \<times> jval) list"

definition dict_set :: "dict \<Rightarrow> string \<Rightarrow> jval \<Rightarrow> dict" where
  "dict_set d k v =
     (if k \<in> fst ` set d then map (\<lambda>(k', v'). if k' = k then (k', v) else (k', v')) d
      else d @ [(k, v)])"

definition dict_update :: "dict \<Rightarrow> dict \<Rightarrow> dict" where
  "dict_update d entries = foldl (\<lambda>d (k, v). dict_set d k v) d entries"

text \<open>
  Modelled from the spec: the standard base64 encoding of the imported library
  (\<^verbatim>\<open>base64.b64encode\<close>, \<^verbatim>\<open>base64.b64decode\<close>), which the spec names as the wrapping of
  the bundle and of each of its fields. The encoder writes three bytes as four characters
  of the alphabet \<^verbatim>\<open>A-Z a-z 0-9 + /\<close> and pads the last group with \<^verbatim>\<open>=\<close>. The decoder is
  the library's lenient one: it refuses a string with a character above 127, skips every
  character outside the alphabet, stops at the padding that completes a group, and raises
  on an incomplete last group.
\<close>

definition b64char :: "nat \<Rightarrow> char" where
  "b64char n =
     (if n < 26 then char_of (65 + n)
      else if n < 52 then char_of (71 + n)
      else if n < 62 then char_of (n - 4)
      else if n = 62 then CHR ''+'' else CHR ''/'')"

definition b64value :: "char \<Rightarrow> nat option" where
  "b64value c =
     (let n = ord c in
        if 65 \<le> n \<and> n \<le> 90 then Some (n - 65)
        else if 97 \<le> n \<and> n \<le> 122 then Some (n - 71)
        else if 48 \<le> n \<and> n \<le> 57 then Some (n + 4)
        else if c = CHR ''+'' then Some 62
        else if c = CHR ''/'' then Some 63
        else None)"

fun b64encode :: "bytes \<Rightarrow> string" where
  "b64encode [] = []"
| "b64encode [a] =
     [b64char (ord a div 4), b64char ((ord a mod 4) * 16), CHR ''='', CHR ''='']"
| "b64encode [a, b] =
     [b64char (ord a div 4), b64char ((ord a mod 4) * 16 + ord b div 16),
      b64char ((ord b mod 16) * 4), CHR ''='']"
| "b64encode (a # b # c # rest) =
     [b64char (ord a div 4), b64char ((ord a mod 4) * 16 + ord b div 16),
      b64char ((ord b mod 16) * 4 + ord c div 64), b64char (ord c mod 64)] @ b64encode rest"

text \<open>
  The decoder's loop, with its state: the position in the group of four (\<open>quad_pos\<close>), the
  bits left over from the last character (\<open>leftchar\<close>), and the padding characters seen
  since the last character of the alphabet (\<open>pads\<close>).
\<close>

fun a2b_base64 :: "nat \<Rightarrow> nat \<Rightarrow> nat \<Rightarrow> string \<Rightarrow> bytes \<Rightarrow> lib_error + bytes" where
  "a2b_base64 quad_pos leftchar pads [] out =
     (if quad_pos = 0 then Inr out else Inl BinasciiError)"
| "a2b_base64 quad_pos leftchar pads (c # cs) out =
     (if c = CHR ''='' then
        (if 2 \<le> quad_pos \<and> 4 \<le> quad_pos + (pads + 1) then Inr out
         else a2b_base64 quad_pos leftchar (if 2 \<le> quad_pos then pads + 1 else pads) cs out)
      else
        case b64value c of
          None \<Rightarrow> a2b_base64 quad_pos leftchar pads cs out
        | Some v \<Rightarrow>
            if quad_pos = 0 then a2b_base64 1 v 0 cs out
            else if quad_pos = 1
            then a2b_base64 2 (v mod 16) 0 cs (out @ [char_of (leftchar * 4 + v div 16)])
            else if quad_pos = 2
            then a2b_base64 3 (v mod 4) 0 cs (out @ [char_of (leftchar * 16 + v div 4)])
            else a2b_base64 0 0 0 cs (out @ [char_of (leftchar * 64 + v)]))"

definition b64decode :: "string \<Rightarrow> lib_error + bytes" where
  "b64decode s =
     (if \<exists>c \<in> set s. 128 \<le> ord c then Inl ValueError else a2b_base64 0 0 0 s [])"

text \<open>
  \<^verbatim>\<open>bytes.decode('utf-8')\<close>, for the code points of the model (up to 255): a byte below
  128 is its character, and the two-byte sequences that start with \<^verbatim>\<open>0xC2\<close> or
  \<^verbatim>\<open>0xC3\<close> are the characters from 128 to 255. Every other sequence is reported as a
  decoding error; a well-formed sequence for a code point above 255 has no string in the
  model.
\<close>

fun utf8_decode_from :: "string \<Rightarrow> bytes \<Rightarrow> lib_error + string" where
  "utf8_decode_from acc [] = Inr acc"
| "utf8_decode_from acc [c] =
     (if ord c < 128 then Inr (acc @ [c]) else Inl UnicodeDecodeError)"
| "utf8_decode_from acc (c # d # cs) =
     (if ord c < 128 then utf8_decode_from (acc @ [c]) (d # cs)
      else if (ord c = 194 \<or> ord c = 195) \<and> 128 \<le> ord d \<and> ord d < 192
      then utf8_decode_from (acc @ [char_of ((ord c - 192) * 64 + (ord d - 128))]) cs
      else Inl UnicodeDecodeError)"

definition utf8_decode :: "bytes \<Rightarrow> lib_error + string" where
  "utf8_decode bs = utf8_decode_from [] bs"

section \<open>JSON documents\<close>

text \<open>
  Modelled from the spec: the JSON text of the imported library (\<^verbatim>\<open>json.dumps\<close>,
  \<^verbatim>\<open>json.loads\<close>), which the spec names as the canonical, stable, reversible encoding
  of the metadata and of the bundle. The writer escapes the quote, the backslash and
  every character outside the printable ASCII range, so its output is ASCII. The reader
  is modelled on the documents the engine writes and reads, flat objects of strings and
  integers: for any other document (nested values, floats, literals, a document that is
  not an object, a code point above 255) it reports \<open>UnsupportedJSON\<close>, where the library
  would return a value of another shape.
\<close>

definition hex_digit :: "nat \<Rightarrow> char" where
  "hex_digit n = (if n < 10 then char_of (48 + n) else char_of (87 + n))"

definition hex_value :: "char \<Rightarrow> nat option" where
  "hex_value c =
     (let n = ord c in
        if 48 \<le> n \<and> n \<le> 57 then Some (n - 48)
        else if 97 \<le> n \<and> n \<le> 102 then Some (n - 87)
        else if 65 \<le> n \<and> n \<le> 70 then Some (n - 55)
        else None)"

definition escape_char :: "char \<Rightarrow> string" where
  "escape_char c =
     (if c = CHR 0x22 then [CHR 0x5C, CHR 0x22]
      else if c = CHR 0x5C then [CHR 0x5C, CHR 0x5C]
      else if c = CHR 0x0A then [CHR 0x5C, CHR ''n'']
      else if c = CHR 0x0D then [CHR 0x5C, CHR ''r'']
      else if c = CHR 0x09 then [CHR 0x5C, CHR ''t'']
      else if c = CHR 0x08 then [CHR 0x5C, CHR ''b'']
      else if c = CHR 0x0C then [CHR 0x5C, CHR ''f'']
      else if ord c < 32 \<or> 126 < ord c
      then [CHR 0x5C, CHR ''u'', CHR ''0'', CHR ''0'',
            hex_digit (ord c div 16), hex_digit (ord c mod 16)]
      else [c])"

definition unescape_char :: "char \<Rightarrow> char option" where
  "unescape_char e =
     (if e = CHR 0x22 then Some (CHR 0x22)
      else if e = CHR 0x5C then Some (CHR 0x5C)
      else if e = CHR ''/'' then Some (CHR ''/'')
      else if e = CHR ''n'' then Some (CHR 0x0A)
      else if e = CHR ''r'' then Some (CHR 0x0D)
      else if e = CHR ''t'' then Some (CHR 0x09)
      else if e = CHR ''b'' then Some (CHR 0x08)
      else if e = CHR ''f'' then Some (CHR 0x0C)
      else None)"

definition dumps_str :: "string \<Rightarrow> string" where
  "dumps_str s = CHR 0x22 # concat (map escape_char s) @ [CHR 0x22]"

definition dumps_int :: "int \<Rightarrow> string" where
  "dumps_int i = (if i < 0 then CHR ''-'' # str (nat (- i)) else str (nat i))"

definition dumps_value :: "jval \<Rightarrow> string" where
  "dumps_value v = (case v of JStr s \<Rightarrow> dumps_str s | JInt i \<Rightarrow> dumps_int i)"

fun join :: "string \<Rightarrow> string list \<Rightarrow> string" where
  "join sep [] = []"
| "join sep [x] = x"
| "join sep (x # y # xs) = x @ sep @ join sep (y # xs)"

text \<open>The order of strings by code point, and the items of a dictionary sorted by key.\<close>

fun str_le :: "string \<Rightarrow> string \<Rightarrow> bool" where
  "str_le [] t = True"
| "str_le (c # cs) [] = False"
| "str_le (c # cs) (d # ds) = (ord c < ord d \<or> (c = d \<and> str_le cs ds))"

fun insert_item :: "string \<times> jval \<Rightarrow> dict \<Rightarrow> dict" where
  "insert_item x [] = [x]"
| "insert_item x (y # ys) = (if str_le (fst x) (fst y) then x # y # ys else y # insert_item x ys)"

definition sorted_items :: "dict \<Rightarrow> dict" where
  "sorted_items d = foldr insert_item d []"

text \<open>
  \<^verbatim>\<open>json.dumps(d, separators=(item_separator, key_separator), sort_keys=sort_keys)\<close>.
\<close>

definition json_dumps :: "string \<Rightarrow> string \<Rightarrow> bool \<Rightarrow> dict \<Rightarrow> string" where
  "json_dumps item_separator key_separator sort_keys d =
     ''{'' @
     join item_separator
       (map (\<lambda>(k, v). dumps_str k @ key_separator @ dumps_value v)
          (if sort_keys then sorted_items d else d)) @
     ''}''"

text \<open>
  The reader splits the text into tokens and then reads the members of the object. A
  key that occurs twice keeps its first place and its last value.
\<close>

datatype token = TLBrace | TRBrace | TColon | TComma | TStr string | TInt int

datatype scan = Between | InString string | InNumber string

definition whitespace :: "char \<Rightarrow> bool" where
  "whitespace c = (c = CHR '' '' \<or> c = CHR 0x0A \<or> c = CHR 0x0D \<or> c = CHR 0x09)"

definition number :: "string \<Rightarrow> lib_error + int" where
  "number n =
     (let digits = (if n \<noteq> [] \<and> hd n = CHR ''-'' then tl n else n) in
        if \<not> isdigit digits \<or> (1 < length digits \<and> hd digits = CHR ''0'')
        then Inl JSONDecodeError
        else if n \<noteq> [] \<and> hd n = CHR ''-'' then Inr (- int (int_of_str digits))
        else Inr (int (int_of_str digits)))"

fun tokens :: "scan \<Rightarrow> string \<Rightarrow> token list \<Rightarrow> lib_error + token list" where
  "tokens Between [] ts = Inr ts"
| "tokens (InString s) [] ts = Inl JSONDecodeError"
| "tokens (InNumber n) [] ts =
     (case number n of Inl e \<Rightarrow> Inl e | Inr i \<Rightarrow> Inr (ts @ [TInt i]))"
| "tokens Between (c # cs) ts =
     (if whitespace c then tokens Between cs ts
      else if c = CHR ''{'' then tokens Between cs (ts @ [TLBrace])
      else if c = CHR ''}'' then tokens Between cs (ts @ [TRBrace])
      else if c = CHR '':'' then tokens Between cs (ts @ [TColon])
      else if c = CHR '','' then tokens Between cs (ts @ [TComma])
      else if c = CHR 0x22 then tokens (InString []) cs ts
      else if c = CHR ''-'' \<or> isdigit [c] then tokens (InNumber [c]) cs ts
      else Inl UnsupportedJSON)"
| "tokens (InNumber n) (c # cs) ts =
     (if isdigit [c] then tokens (InNumber (n @ [c])) cs ts
      else if c = CHR ''.'' \<or> c = CHR ''e'' \<or> c = CHR ''E'' then Inl UnsupportedJSON
      else
        case number n of
          Inl e \<Rightarrow> Inl e
        | Inr i \<Rightarrow>
            if whitespace c then tokens Between cs (ts @ [TInt i])
            else if c = CHR ''}'' then tokens Between cs (ts @ [TInt i, TRBrace])
            else if c = CHR '','' then tokens Between cs (ts @ [TInt i, TComma])
            else Inl JSONDecodeError)"
| "tokens (InString s) (c # cs) ts =
     (if c = CHR 0x22 then tokens Between cs (ts @ [TStr s])
      else if c = CHR 0x5C then
        (case cs of
           [] \<Rightarrow> Inl JSONDecodeError
         | e # cs' \<Rightarrow>
             if e = CHR ''u'' then
               (case cs' of
                  h1 # h2 # h3 # h4 # cs'' \<Rightarrow>
                    (case (hex_value h1, hex_value h2, hex_value h3, hex_value h4) of
                       (Some a, Some b, Some x, Some y) \<Rightarrow>
                         if a = 0 \<and> b = 0
                         then tokens (InString (s @ [char_of (16 * x + y)])) cs'' ts
                         else Inl UnsupportedJSON
                     | _ \<Rightarrow> Inl JSONDecodeError)
                | _ \<Rightarrow> Inl JSONDecodeError)
             else
               (case unescape_char e of
                  Some c' \<Rightarrow> tokens (InString (s @ [c'])) cs' ts
                | None \<Rightarrow> Inl JSONDecodeError))
      else if ord c < 32 then Inl JSONDecodeError
      else tokens (InString (s @ [c])) cs ts)"

definition token_value :: "token \<Rightarrow> jval option" where
  "token_value t = (case t of TStr s \<Rightarrow> Some (JStr s) | TInt i \<Rightarrow> Some (JInt i) | _ \<Rightarrow> None)"

fun members :: "token list \<Rightarrow> dict \<Rightarrow> lib_error + dict" where
  "members (TStr k # TColon # v # t # rest) d =
     (case token_value v of
        None \<Rightarrow> Inl JSONDecodeError
      | Some x \<Rightarrow>
          if t = TRBrace \<and> rest = [] then Inr (dict_set d k x)
          else if t = TComma then members rest (dict_set d k x)
          else Inl JSONDecodeError)"
| "members ts d = Inl JSONDecodeError"

definition json_loads :: "string \<Rightarrow> lib_error + dict" where
  "json_loads s =
     (case tokens Between s [] of
        Inl e \<Rightarrow> Inl e
      | Inr ts \<Rightarrow>
          (case ts of
             [] \<Rightarrow> Inl JSONDecodeError
           | TLBrace # rest \<Rightarrow> if rest = [TRBrace] then Inr [] else members rest []
           | TStr s # rest \<Rightarrow> if rest = [] then Inl UnsupportedJSON else Inl JSONDecodeError
           | TInt i # rest \<Rightarrow> if rest = [] then Inl UnsupportedJSON else Inl JSONDecodeError
           | _ \<Rightarrow> Inl JSONDecodeError))"

section \<open>The encryption engine\<close>

text \<open>
  The engine of \<^verbatim>\<open>utils/crypto_engine.py\<close>. The cipher and the hash are the imported
  library's (\<^verbatim>\<open>AESGCM\<close>, \<^verbatim>\<open>hashlib.sha256\<close>); they are parameters of the model, a record
  of functions. \<open>AESGCM_encrypt key nonce data aad\<close> gives the ciphertext followed by the
  tag, or the exception of the library; \<open>AESGCM_decrypt key nonce data aad\<close> gives the
  plaintext, or the exception, \<open>InvalidTag\<close> when the tag does not verify.
\<close>

record crypto_lib =
  AESGCM_encrypt :: "bytes \<Rightarrow> bytes \<Rightarrow> bytes \<Rightarrow> bytes \<Rightarrow> lib_error + bytes"
  AESGCM_decrypt :: "bytes \<Rightarrow> bytes \<Rightarrow> bytes \<Rightarrow> bytes \<Rightarrow> lib_error + bytes"
  sha256_hexdigest :: "bytes \<Rightarrow> string"

text \<open>
  What the engine reads and writes outside its arguments: the dictionary objects of the
  caller, by reference (\<open>objects\<close>); the generator behind \<^verbatim>\<open>os.urandom\<close>, as the bytes it
  will give and the number of bytes drawn so far; and the clock, as the text of
  \<^verbatim>\<open>datetime.utcnow().isoformat()\<close>.
\<close>

type_synonym ref = nat

record world =
  objects :: "ref \<rightharpoonup> dict"
  entropy :: "nat \<Rightarrow> char"
  drawn :: nat
  utcnow :: string

definition urandom :: "world \<Rightarrow> nat \<Rightarrow> bytes \<times> world" where
  "urandom w n = (map (entropy w) [drawn w ..< drawn w + n], w\<lparr>drawn := drawn w + n\<rparr>)"

datatype crypto_error =
    InvalidKeySize
  | AuthenticationFailed
  | KeyMismatch
  | CryptoLibrary lib_error

definition VERSION :: string where
  "VERSION = ''v2.0''"

definition KEY_SIZE :: nat where
  "KEY_SIZE = 32"

definition NONCE_SIZE :: nat where
  "NONCE_SIZE = 12"

definition TAG_SIZE :: nat where
  "TAG_SIZE = 16"

text \<open>An engine holds the cipher object, which holds the key, and the prefix of the key's hash.\<close>

record engine =
  aesgcm :: bytes
  key_hash :: string

definition init :: "crypto_lib \<Rightarrow> bytes \<Rightarrow> crypto_error + engine" where
  "init lib key =
     (if length key \<noteq> KEY_SIZE then Inl InvalidKeySize
      else Inr \<lparr>aesgcm = key, key_hash = take 16 (sha256_hexdigest lib key)\<rparr>)"

text \<open>
  \<^verbatim>\<open>encrypt\<close> takes the metadata as Python passes it: nothing (\<^verbatim>\<open>None\<close>), or a reference
  to a dictionary object of the caller. \<^verbatim>\<open>meta = metadata or {}\<close> is a new dictionary when
  the argument is \<^verbatim>\<open>None\<close> or an empty dictionary, and the caller's own object otherwise;
  \<^verbatim>\<open>meta.update\<close> then writes to that object.
\<close>

definition encrypt ::
  "crypto_lib \<Rightarrow> engine \<Rightarrow> world \<Rightarrow> bytes \<Rightarrow> ref option \<Rightarrow> world \<times> (crypto_error + dict)" where
  "encrypt lib self w plaintext metadata =
     (let (nonce, w1) = urandom w NONCE_SIZE;
          target = (case metadata of
                      None \<Rightarrow> None
                    | Some r \<Rightarrow>
                        (case objects w1 r of
                           None \<Rightarrow> None
                         | Some d \<Rightarrow> if d = [] then None else Some r));
          meta0 = (case target of None \<Rightarrow> [] | Some r \<Rightarrow> the (objects w1 r));
          meta = dict_update meta0
                   [(''version'', JStr VERSION),
                    (''timestamp'', JStr (utcnow w1)),
                    (''key_hash'', JStr (key_hash self)),
                    (''size'', JInt (int (length plaintext)))];
          w2 = (case target of
                  None \<Rightarrow> w1
                | Some r \<Rightarrow> w1\<lparr>objects := (objects w1)(r \<mapsto> meta)\<rparr>);
          aad = utf8_encode (json_dumps '', '' '': '' True meta)
      in
        case AESGCM_encrypt lib (aesgcm self) nonce plaintext aad of
          Inl e \<Rightarrow> (w2, Inl (CryptoLibrary e))
        | Inr ciphertext \<Rightarrow>
            let ct = take (length ciphertext - TAG_SIZE) ciphertext;
                tag = drop (length ciphertext - TAG_SIZE) ciphertext
            in (w2, Inr [(''version'', JStr VERSION),
                         (''metadata'', JStr (b64encode aad)),
                         (''nonce'', JStr (b64encode nonce)),
                         (''ciphertext'', JStr (b64encode ct)),
                         (''tag'', JStr (b64encode tag))]))"

text \<open>
  Reading a field of the bundle and decoding it: a missing key and a value that is not a
  string raise, as the decoder does. These four steps are outside the \<^verbatim>\<open>try\<close>.
\<close>

definition field :: "dict \<Rightarrow> string \<Rightarrow> lib_error + bytes" where
  "field bundle k =
     (case map_of bundle k of
        None \<Rightarrow> Inl KeyError
      | Some (JInt i) \<Rightarrow> Inl TypeError
      | Some (JStr s) \<Rightarrow> b64decode s)"

definition decrypt :: "crypto_lib \<Rightarrow> engine \<Rightarrow> dict \<Rightarrow> crypto_error + (bytes \<times> dict)" where
  "decrypt lib self bundle =
     (case field bundle ''nonce'' of
        Inl e \<Rightarrow> Inl (CryptoLibrary e)
      | Inr nonce \<Rightarrow>
     (case field bundle ''ciphertext'' of
        Inl e \<Rightarrow> Inl (CryptoLibrary e)
      | Inr ct \<Rightarrow>
     (case field bundle ''tag'' of
        Inl e \<Rightarrow> Inl (CryptoLibrary e)
      | Inr tag \<Rightarrow>
     (case field bundle ''metadata'' of
        Inl e \<Rightarrow> Inl (CryptoLibrary e)
      | Inr aad \<Rightarrow>
          let full_ct = ct @ tag in
            case AESGCM_decrypt lib (aesgcm self) nonce full_ct aad of
              Inl e \<Rightarrow> if e = InvalidTag then Inl AuthenticationFailed else Inl (CryptoLibrary e)
            | Inr plaintext \<Rightarrow>
                (case utf8_decode aad of
                   Inl e \<Rightarrow> Inl (CryptoLibrary e)
                 | Inr text \<Rightarrow>
                     (case json_loads text of
                        Inl e \<Rightarrow> Inl (CryptoLibrary e)
                      | Inr metadata \<Rightarrow>
                          if map_of metadata ''key_hash'' \<noteq> Some (JStr (key_hash self))
                          then Inl KeyMismatch
                          else Inr (plaintext, metadata)))))))"

definition create_bundle_string :: "dict \<Rightarrow> string" where
  "create_bundle_string bundle =
     (let json_str = json_dumps '','' '':'' False bundle
      in b64encode (utf8_encode json_str))"

definition parse_bundle_string :: "string \<Rightarrow> lib_error + dict" where
  "parse_bundle_string bundle_str =
     (case b64decode bundle_str of
        Inl e \<Rightarrow> Inl e
      | Inr raw \<Rightarrow>
          (case utf8_decode raw of
             Inl e \<Rightarrow> Inl e
           | Inr json_str \<Rightarrow> json_loads json_str))"

definition quick_encrypt ::
  "crypto_lib \<Rightarrow> world \<Rightarrow> bytes \<Rightarrow> bytes \<Rightarrow> ref option \<Rightarrow> world \<times> (crypto_error + string)" where
  "quick_encrypt lib w key data metadata =
     (case init lib key of
        Inl e \<Rightarrow> (w, Inl e)
      | Inr crypto \<Rightarrow>
          (case encrypt lib crypto w data metadata of
             (w', Inl e) \<Rightarrow> (w', Inl e)
           | (w', Inr bundle) \<Rightarrow> (w', Inr (create_bundle_string bundle))))"

definition quick_decrypt ::
  "crypto_lib \<Rightarrow> bytes \<Rightarrow> string \<Rightarrow> crypto_error + (bytes \<times> dict)" where
  "quick_decrypt lib key bundle_str =
     (case init lib key of
        Inl e \<Rightarrow> Inl e
      | Inr crypto \<Rightarrow>
          (case parse_bundle_string bundle_str of
             Inl e \<Rightarrow> Inl (CryptoLibrary e)
           | Inr bundle \<Rightarrow> decrypt lib crypto bundle))"

text \<open>
  A world for running the engine on concrete inputs: the caller holds one dictionary, the
  metadata of the upload page.
\<close>

definition caller_world :: world where
  "caller_world = \<lparr>objects = [0 \<mapsto> [(''filename'', JStr ''msg.txt'')]],
                    entropy = (\<lambda>i. char_of i), drawn = 0,
                    utcnow = ''2024-01-01T00:00:00''\<rparr>"

section \<open>Properties of the embedding\<close>



lemma length_a2bits: "length (a2bits c) = 8"
  by (simp add: a2bits_def)

lemma length_a2bits_list: "length (a2bits_list s) = 8 * length s"
  by (induction s) (simp_all add: a2bits_list_def length_a2bits)










declare str.simps [simp del]


lemma str_nonempty: "str n \<noteq> []"
  by (subst str.simps) simp










lemma pad_le: "(3 - x mod 3) mod 3 \<le> (2::nat)"
proof -
  have "(3 - x mod 3) mod 3 < 3" by (rule mod_less_divisor) simp
  then show ?thesis by linarith
qed

lemma message_bits_eq:
  "message_bits p =
     a2bits_list (str (length p) @ CHR '':'' # p) @
     replicate ((3 - (8 * length (str (length p) @ CHR '':'' # p)) mod 3) mod 3) False"
  by (simp add: message_bits_def Let_def length_a2bits_list)

lemma length_message_bits:
  "length (message_bits p) =
     8 * (length (str (length p)) + 1 + length p) +
     (3 - (8 * (length (str (length p)) + 1 + length p)) mod 3) mod 3"
  by (simp add: message_bits_eq length_a2bits_list)


lemma length_message_bits_bounds:
  "8 * (length (str (length p)) + 1 + length p) \<le> length (message_bits p)"
  "length (message_bits p) < 8 * (length (str (length p)) + 1 + length p) + 3"
  unfolding length_message_bits
  using pad_le [of "8 * (length (str (length p)) + 1 + length p)"] by linarith+




lemma encode_pixels_ok:
  "length bits \<le> 3 * length ps \<Longrightarrow> \<exists>qs. encode_pixels bits ps = Inr qs"
proof (induction bits ps rule: encode_pixels.induct)
  case (1 b0 b1 b2 bits ps)
  then obtain r g b ps' where ps: "ps = (r, g, b) # ps'"
    by (cases ps) auto
  with "1.prems" have "length bits \<le> 3 * length ps'" by simp
  from "1.IH" [OF ps refl refl this] ps show ?case by auto
qed simp_all





section \<open>Properties of validation and capacity\<close>

lemma convert_RGB_mode: "convert_RGB img = Inr c \<Longrightarrow> mode c = ''RGB''"
  by (auto simp: convert_RGB_def split: sum.splits pixel_data.splits)

lemma convert_RGB_size: "convert_RGB img = Inr c \<Longrightarrow> width c = width img \<and> height c = height img"
  by (auto simp: convert_RGB_def split: sum.splits pixel_data.splits)

lemma calculate_capacity_image:
  assumes "fs p = Some (ImageFile img)"
    and "mode img \<in> set [''RGB'', ''RGBA''] \<or> (\<exists>c. convert_RGB img = Inr c)"
  shows "calculate_capacity fs p =
     Inr ((int (width img) * int (height img) * (if mode img = ''RGBA'' then 4 else 3)) div 8 - 200)"
  using assms
  by (auto simp: calculate_capacity_def Image_open_def METADATA_OVERHEAD_def Let_def
      convert_RGB_mode)

lemma calculate_capacity_unreadable:
  assumes "fs p = Some (ImageFile img)"
    and "mode img \<notin> set [''RGB'', ''RGBA'']" and "convert_RGB img = Inl e"
  shows "calculate_capacity fs p = Inl e"
  using assms by (simp add: calculate_capacity_def Image_open_def)

text \<open>
  Claim C4. A readable image is a file that opens and whose pixel data can be read where
  \<^verbatim>\<open>calculate_capacity\<close> reads it: an image that is neither RGB nor RGBA is converted,
  so its conversion has to succeed; an RGB or RGBA image is not read beyond its header.
  For every readable image \<open>calculate_capacity\<close> returns
  \<open>(width * height * channels) div 8 - 200\<close>, where \<open>channels\<close> is 4 for an RGBA image
  and 3 for an RGB image (an image of any other mode is converted to RGB first, so it
  counts 3 as well). The result is a function of the width, the height and that channel
  count alone: any other readable image with the same three numbers has the same
  capacity, whatever its pixels. Repeated calls on an unchanged file agree because the
  result is a function of the file.
\<close>

theorem capacity_formula:
  assumes "fs p = Some (ImageFile img)"
    and "mode img \<in> set [''RGB'', ''RGBA''] \<or> (\<exists>c. convert_RGB img = Inr c)"
  shows "calculate_capacity fs p =
           Inr ((int (width img) * int (height img) *
                 (if mode img = ''RGBA'' then 4 else 3)) div 8 - 200)
         \<and> (\<forall>fs' p' img'. fs' p' = Some (ImageFile img') \<and>
               (mode img' \<in> set [''RGB'', ''RGBA''] \<or> (\<exists>c. convert_RGB img' = Inr c)) \<and>
               width img' = width img \<and> height img' = height img \<and>
               (mode img' = ''RGBA'') = (mode img = ''RGBA'')
               \<longrightarrow> calculate_capacity fs' p' = calculate_capacity fs p)"
proof -
  have "calculate_capacity fs' p' = calculate_capacity fs p"
    if "fs' p' = Some (ImageFile img')"
      and "mode img' \<in> set [''RGB'', ''RGBA''] \<or> (\<exists>c. convert_RGB img' = Inr c)"
      and "width img' = width img" "height img' = height img"
      and "(mode img' = ''RGBA'') = (mode img = ''RGBA'')" for fs' p' img'
    unfolding calculate_capacity_image [where fs = fs and p = p, OF assms]
      calculate_capacity_image [where fs = fs' and p = p', OF that(1,2)]
    using that(3-5) by simp
  with calculate_capacity_image [where fs = fs and p = p, OF assms] show ?thesis by blast
qed

theorem capacity_formula_witness:
  "calculate_capacity uploads ''uploads/photo.bmp'' = Inr 3550 \<and>
   calculate_capacity uploads ''uploads/logo.png'' = Inr 4800 \<and>
   calculate_capacity uploads ''uploads/scan.png'' = Inr 3550 \<and>
   calculate_capacity uploads ''uploads/torn.png'' = Inr 14800"
  using capacity_formula [of uploads "''uploads/photo.bmp''" rgb_cover]
    capacity_formula [of uploads "''uploads/logo.png''" rgba_cover]
    capacity_formula [of uploads "''uploads/scan.png''" grey_cover]
    capacity_formula [of uploads "''uploads/torn.png''" torn_photo]
  by (simp add: uploads_def rgb_cover_def rgba_cover_def grey_cover_def torn_photo_def
      convert_RGB_def)

lemma validate_image_returns: "\<exists>ok msg stats. validate_image fs p = Inr (ok, msg, stats)"
  by (cases "validate_image_body fs p") (auto simp: validate_image_def)




text \<open>
  Claim C7, as stated, fails: for a missing file the statistics are empty, and for an
  image that is too small they hold no capacity.
\<close>

theorem validate_image_stats_counterexample:
  "validate_image uploads ''uploads/missing.png'' = Inr (False, NotFoundMsg, Map.empty) \<and>
   (\<exists>msg stats. validate_image uploads ''uploads/icon.png'' = Inr (False, msg, stats) \<and>
      stats ''capacity_bytes'' = None)"
  by (simp add: validate_image_def validate_image_body_def exists_def Image_open_def
      uploads_def small_icon_def SUPPORTED_FORMATS_def MIN_DIMENSION_def Let_def)

text \<open>
  Claim C7, amended. For a path that holds an image file, the statistics are the width,
  height, format, mode and pixel count of its header when the format is not supported or
  a dimension is below 100 (verdict \<open>False\<close>); when both checks pass and the capacity can
  be computed (the image is RGB or RGBA, or its conversion succeeds), they are these five
  entries together with the capacity in bytes and in kilobytes, and the verdict says
  whether the capacity is at least 1000; when the conversion raises, the verdict is
  \<open>False\<close> and the statistics are empty. For any other path the verdict is \<open>False\<close> and
  the statistics are empty.
\<close>

theorem validate_image_stats:
  assumes v: "validate_image fs p = Inr (ok, msg, stats)"
  shows "(case fs p of
      Some (ImageFile img) \<Rightarrow>
        (let fmt = (case format img of Some f \<Rightarrow> f | None \<Rightarrow> ''Unknown'');
             header = [''width'' \<mapsto> IntV (int (width img)),
                       ''height'' \<mapsto> IntV (int (height img)),
                       ''format'' \<mapsto> StrV fmt,
                       ''mode'' \<mapsto> StrV (mode img),
                       ''pixels'' \<mapsto> IntV (int (width img) * int (height img))];
             cap = (int (width img) * int (height img) *
                    (if mode img = ''RGBA'' then 4 else 3)) div 8 - 200
         in
           if fmt \<in> set SUPPORTED_FORMATS \<and> 100 \<le> width img \<and> 100 \<le> height img
           then
             if mode img \<in> set [''RGB'', ''RGBA''] \<or> (\<exists>c. convert_RGB img = Inr c)
             then ok = (1000 \<le> cap) \<and>
                  stats = header(''capacity_bytes'' \<mapsto> IntV cap,
                                 ''capacity_kb'' \<mapsto> QuotV cap 1024)
             else \<not> ok \<and> stats = Map.empty
           else \<not> ok \<and> stats = header)
    | _ \<Rightarrow> \<not> ok \<and> stats = Map.empty)"
proof (cases "fs p")
  case None
  with v show ?thesis
    by (auto simp: validate_image_def validate_image_body_def exists_def)
next
  case (Some f)
  show ?thesis
  proof (cases f)
    case NotAnImage
    with Some v show ?thesis
      by (auto simp: validate_image_def validate_image_body_def exists_def Image_open_def)
  next
    case (ImageFile img)
    with Some have img: "fs p = Some (ImageFile img)" by simp
    let ?fmt = "case format img of Some f \<Rightarrow> f | None \<Rightarrow> ''Unknown''"
    consider (bad) "\<not> (?fmt \<in> set SUPPORTED_FORMATS \<and> 100 \<le> width img \<and> 100 \<le> height img)"
      | (readable) "?fmt \<in> set SUPPORTED_FORMATS" "100 \<le> width img" "100 \<le> height img"
          "mode img \<in> set [''RGB'', ''RGBA''] \<or> (\<exists>c. convert_RGB img = Inr c)"
      | (unreadable) "?fmt \<in> set SUPPORTED_FORMATS" "100 \<le> width img" "100 \<le> height img"
          "mode img \<notin> set [''RGB'', ''RGBA'']" "\<exists>e. convert_RGB img = Inl e"
      by (cases "convert_RGB img") auto
    then show ?thesis
    proof cases
      case bad
      with v show ?thesis
        by (auto simp: img validate_image_def validate_image_body_def exists_def Image_open_def
            MIN_DIMENSION_def Let_def split: if_splits)
    next
      case readable
      note cap = calculate_capacity_image [where fs = fs and p = p, OF img readable(4)]
      from v readable show ?thesis
        by (auto simp: img validate_image_def validate_image_body_def exists_def Image_open_def
            MIN_DIMENSION_def Let_def cap split: if_splits)
    next
      case unreadable
      then obtain e where e: "convert_RGB img = Inl e" by blast
      note cap = calculate_capacity_unreadable [where fs = fs and p = p, OF img unreadable(4) e]
      from v unreadable e show ?thesis
        by (auto simp: img validate_image_def validate_image_body_def exists_def Image_open_def
            MIN_DIMENSION_def Let_def cap split: if_splits)
    qed
  qed
qed

theorem validate_image_stats_witness:
  "validate_image uploads ''uploads/photo.bmp'' =
     Inr (True, ValidMsg 100 100 3550,
          [''width'' \<mapsto> IntV 100, ''height'' \<mapsto> IntV 100, ''format'' \<mapsto> StrV ''BMP'',
           ''mode'' \<mapsto> StrV ''RGB'', ''pixels'' \<mapsto> IntV 10000,
           ''capacity_bytes'' \<mapsto> IntV 3550, ''capacity_kb'' \<mapsto> QuotV 3550 1024]) \<and>
   validate_image uploads ''uploads/icon.png'' =
     Inr (False, TooSmallMsg 50 50,
          [''width'' \<mapsto> IntV 50, ''height'' \<mapsto> IntV 50, ''format'' \<mapsto> StrV ''PNG'',
           ''mode'' \<mapsto> StrV ''RGB'', ''pixels'' \<mapsto> IntV 2500]) \<and>
   validate_image uploads ''uploads/torn_scan.png'' =
     Inr (False, InvalidImageMsg OSError, Map.empty)"
  using validate_image_stats [of uploads "''uploads/photo.bmp''" True "ValidMsg 100 100 3550"
      "[''width'' \<mapsto> IntV 100, ''height'' \<mapsto> IntV 100, ''format'' \<mapsto> StrV ''BMP'',
           ''mode'' \<mapsto> StrV ''RGB'', ''pixels'' \<mapsto> IntV 10000,
           ''capacity_bytes'' \<mapsto> IntV 3550, ''capacity_kb'' \<mapsto> QuotV 3550 1024]"]
    validate_image_stats [of uploads "''uploads/icon.png''" False "TooSmallMsg 50 50"
      "[''width'' \<mapsto> IntV 50, ''height'' \<mapsto> IntV 50, ''format'' \<mapsto> StrV ''PNG'',
           ''mode'' \<mapsto> StrV ''RGB'', ''pixels'' \<mapsto> IntV 2500]"]
    validate_image_stats [of uploads "''uploads/torn_scan.png''" False "InvalidImageMsg OSError"
      Map.empty]
  by (simp add: validate_image_def validate_image_body_def exists_def Image_open_def
      calculate_capacity_def METADATA_OVERHEAD_def convert_RGB_def
      uploads_def rgb_cover_def small_icon_def torn_scan_def SUPPORTED_FORMATS_def
      MIN_DIMENSION_def Let_def)

section \<open>Properties of hiding and revealing\<close>

lemma length_utf8_encode: "length s \<le> length (utf8_encode s)"
  by (induction s) (auto simp: utf8_encode_def)

lemma utf8_encode_ascii: "\<forall>c\<in>set s. ord c < 128 \<Longrightarrow> utf8_encode s = s"
  by (induction s) (auto simp: utf8_encode_def)

lemma length_str_le: "0 < k \<Longrightarrow> n < 10 ^ k \<Longrightarrow> length (str n) \<le> k"
proof (induction n arbitrary: k rule: str.induct)
  case (1 n)
  show ?case
  proof (cases "n < 10")
    case True
    then have "length (str n) = 1" by (subst str.simps) simp
    with 1(2) show ?thesis by simp
  next
    case False
    obtain k' where k: "k = Suc k'" using 1(2) by (cases k) auto
    have "0 < k'" using False 1(3) k by (cases k') auto
    moreover have "n div 10 < 10 ^ k'" using 1(3) k by (simp add: div_less_iff_less_mult mult.commute)
    ultimately have "length (str (n div 10)) \<le> k'" using 1(1) [OF False] by blast
    moreover have "length (str n) = length (str (n div 10)) + 1"
      using False by (subst str.simps) simp
    ultimately show ?thesis using k by simp
  qed
qed

lemma validate_image_valid:
  assumes "validate_image fs cover = Inr (True, msg, stats)"
  shows "\<exists>img cap. fs cover = Some (ImageFile img) \<and>
           (mode img \<in> set [''RGB'', ''RGBA''] \<or> (\<exists>c. convert_RGB img = Inr c)) \<and>
           calculate_capacity fs cover = Inr cap \<and>
           stats ''capacity_bytes'' = Some (IntV cap) \<and> 1000 \<le> cap"
proof (cases "fs cover")
  case None
  with assms show ?thesis
    by (simp add: validate_image_def validate_image_body_def exists_def)
next
  case (Some f)
  show ?thesis
  proof (cases f)
    case NotAnImage
    with Some assms show ?thesis
      by (simp add: validate_image_def validate_image_body_def exists_def Image_open_def)
  next
    case (ImageFile img)
    with Some have img: "fs cover = Some (ImageFile img)" by simp
    have "\<exists>cap. calculate_capacity fs cover = Inr cap \<and>
           stats ''capacity_bytes'' = Some (IntV cap) \<and> 1000 \<le> cap"
      using assms
      by (auto simp: validate_image_def validate_image_body_def exists_def Image_open_def img
          Let_def split: if_splits sum.splits)
    moreover from this have "mode img \<in> set [''RGB'', ''RGBA''] \<or> (\<exists>c. convert_RGB img = Inr c)"
      by (auto simp: calculate_capacity_def Image_open_def img Let_def split: if_splits sum.splits)
    ultimately show ?thesis using img by blast
  qed
qed

lemma prepare_image_image:
  assumes "fs cover = Some (ImageFile img)"
    and "(if mode img \<notin> set [''RGB'', ''RGBA''] then convert_RGB img else Inr img) = Inr c"
    and "body c = Inr d"
    and "with_suffix cover ''.png'' = Inr prep"
  shows "prepare_image fs cover None =
           (save_png fs prep
              \<lparr>format = None, mode = mode c, width = width c, height = height c, info = [],
               body = Inr d\<rparr>, Inr prep)"
  using assms by (simp add: prepare_image_def Image_open_def Let_def)

lemma prepare_image_unreadable:
  assumes "fs cover = Some (ImageFile img)"
    and "(if mode img \<notin> set [''RGB'', ''RGBA''] then convert_RGB img else Inr img) = Inr c"
    and "body c = Inl e"
  shows "prepare_image fs cover None = (fs, Inl e)"
  using assms by (simp add: prepare_image_def Image_open_def Let_def)

lemma hide_valid:
  assumes img: "fs cover = Some (ImageFile img)"
    and valid: "validate_image fs cover = Inr (True, msg, stats)"
    and cap: "calculate_capacity fs cover = Inr cap"
    and size: "int (length (utf8_encode p)) \<le> cap"
    and c: "(if mode img \<notin> set [''RGB'', ''RGBA''] then convert_RGB img else Inr img) = Inr c"
    and d: "body c = Inr d"
    and prep: "with_suffix cover ''.png'' = Inr prep"
    and fs1: "fs1 = save_png fs prep
              \<lparr>format = None, mode = mode c, width = width c, height = height c, info = [],
               body = Inr d\<rparr>"
  shows "lsb_hide fs1 prep p = Inl e \<Longrightarrow> hide fs cover p out = (fs1, Inl (Library e))"
    and "lsb_hide fs1 prep p = Inr stego \<Longrightarrow>
         fs3 = (if prep \<noteq> cover \<and> exists (save_png fs1 out stego) prep
                then remove (save_png fs1 out stego) prep else save_png fs1 out stego) \<Longrightarrow>
         exists fs3 out \<Longrightarrow> \<exists>st. hide fs cover p out = (fs3, Inr st)"
proof -
  from validate_image_valid [OF valid] cap have
    cb: "stats ''capacity_bytes'' = Some (IntV cap)"
    by auto
  have pr: "prepare_image fs cover None = (fs1, Inr prep)"
    unfolding fs1
    by (rule prepare_image_image [where fs = fs and cover = cover, OF img c d prep])
  show "lsb_hide fs1 prep p = Inl e \<Longrightarrow> hide fs cover p out = (fs1, Inl (Library e))"
    using size by (simp add: hide_def valid cb pr Let_def)
  show "lsb_hide fs1 prep p = Inr stego \<Longrightarrow>
         fs3 = (if prep \<noteq> cover \<and> exists (save_png fs1 out stego) prep
                then remove (save_png fs1 out stego) prep else save_png fs1 out stego) \<Longrightarrow>
         exists fs3 out \<Longrightarrow> \<exists>st. hide fs cover p out = (fs3, Inr st)"
    using size by (simp add: hide_def valid cb pr Let_def)
qed

lemma hide_payload_too_large:
  assumes valid: "validate_image fs cover = Inr (True, msg, stats)"
    and cap: "calculate_capacity fs cover = Inr cap"
    and size: "cap < int (length (utf8_encode p))"
  shows "hide fs cover p out = (fs, Inl (PayloadTooLarge (length (utf8_encode p)) cap))"
proof -
  from validate_image_valid [OF valid] cap have
    cb: "stats ''capacity_bytes'' = Some (IntV cap)"
    by auto
  show ?thesis using size by (simp add: hide_def valid cb Let_def)
qed

lemma hide_unreadable:
  assumes img: "fs cover = Some (ImageFile img)"
    and valid: "validate_image fs cover = Inr (True, msg, stats)"
    and cap: "calculate_capacity fs cover = Inr cap"
    and size: "int (length (utf8_encode p)) \<le> cap"
    and rgb: "mode img \<in> set [''RGB'', ''RGBA'']"
    and e: "body img = Inl e"
  shows "hide fs cover p out = (fs, Inl (Library e))"
proof -
  from validate_image_valid [OF valid] cap have
    cb: "stats ''capacity_bytes'' = Some (IntV cap)"
    by auto
  have "prepare_image fs cover None = (fs, Inl e)"
    by (rule prepare_image_unreadable [where fs = fs and cover = cover and img = img and c = img])
       (use img rgb e in auto)
  then show ?thesis using size by (simp add: hide_def valid cb Let_def)
qed

lemma Image_open_save_png:
  "Image_open (save_png fs q img) q = Inr (img\<lparr>format := Some ''PNG''\<rparr>)"
  by (simp add: Image_open_def save_png_def)

lemma cover_pixels:
  assumes img: "fs cover = Some (ImageFile img)" and wf: "wf_image img"
    and d: "body img = Inr d"
    and valid: "validate_image fs cover = Inr (True, msg, stats)"
    and rgba: "mode img \<noteq> ''RGBA''"
  shows "\<exists>c ps. (if mode img \<notin> set [''RGB'', ''RGBA''] then convert_RGB img else Inr img) = Inr c \<and>
           body c = Inr (RGB ps) \<and> length ps = width img * height img \<and>
           mode c = ''RGB'' \<and> width c = width img \<and> height c = height img"
proof (cases "mode img = ''RGB''")
  case True
  with wf d show ?thesis
    by (cases d) (auto simp: wf_image_def npixels_def)
next
  case False
  from validate_image_valid [OF valid] img False rgba
  obtain c where c: "convert_RGB img = Inr c" by auto
  with wf d False rgba show ?thesis
    by (cases d) (auto simp: wf_image_def npixels_def convert_RGB_def split: sum.splits)
qed

lemma hide_succeeds:
  assumes img: "fs cover = Some (ImageFile img)" and wf: "wf_image img"
    and d: "body img = Inr d"
    and valid: "validate_image fs cover = Inr (True, msg, stats)"
    and rgba: "mode img \<noteq> ''RGBA''"
    and cap: "calculate_capacity fs cover = Inr cap"
    and nonempty: "p \<noteq> []"
    and size: "int (length (utf8_encode p)) \<le> cap"
    and digits: "length p < 10 ^ 198"
    and prep: "with_suffix cover ''.png'' = Inr prep"
    and out: "out \<noteq> prep \<or> prep = cover"
  shows "\<exists>fs' st. hide fs cover p out = (fs', Inr st)"
proof -
  from cover_pixels [OF img wf d valid rgba] obtain c ps where
    c: "(if mode img \<notin> set [''RGB'', ''RGBA''] then convert_RGB img else Inr img) = Inr c"
    and ps: "body c = Inr (RGB ps)" and lps: "length ps = width img * height img"
    and mc: "mode c = ''RGB''" and wc: "width c = width img" and hc: "height c = height img"
    by blast
  define fs1 where "fs1 = save_png fs prep
              \<lparr>format = None, mode = mode c, width = width c, height = height c, info = [],
               body = Inr (RGB ps)\<rparr>"
  have readable: "mode img \<in> set [''RGB'', ''RGBA''] \<or> (\<exists>c. convert_RGB img = Inr c)"
    using c by (auto split: if_splits)
  have capv: "cap = (int (width img) * int (height img) * 3) div 8 - 200"
    using cap rgba calculate_capacity_image [where fs = fs and p = cover, OF img readable]
    by simp
  have "int (length p) \<le> cap" using size length_utf8_encode [of p] by linarith
  then have l8: "8 * length p + 1600 \<le> 3 * (width img * height img)"
    unfolding capv by (simp add: zdiv_int [symmetric] flip: of_nat_mult)
  have "length (str (length p)) \<le> 198" by (rule length_str_le [OF _ digits]) simp
  then have "8 * (length (str (length p)) + 1 + length p) + 3 \<le> 8 * length p + 1600"
    by simp
  with length_message_bits_bounds(2) [of p]
  have "length (message_bits p) \<le> 8 * length p + 1600" by simp
  from this l8 have "length (message_bits p) \<le> 3 * (width img * height img)"
    by (rule order_trans)
  then have fit: "length (message_bits p) \<le> 3 * length ps"
    by (simp only: lps)
  from encode_pixels_ok [OF fit] obtain qs where qs: "encode_pixels (message_bits p) ps = Inr qs"
    by blast
  let ?stego = "\<lparr>format = Some ''PNG'', mode = ''RGB'', width = width img, height = height img,
               info = [], body = Inr (RGB qs)\<rparr>"
  have lsb: "lsb_hide fs1 prep p = Inr ?stego"
    using nonempty fit lps
    by (simp add: lsb_hide_def fs1_def Image_open_save_png mc wc hc qs Let_def mult.commute)
  let ?fs3 = "(if prep \<noteq> cover \<and> exists (save_png fs1 out ?stego) prep
                then remove (save_png fs1 out ?stego) prep else save_png fs1 out ?stego)"
  have "exists ?fs3 out" using out by (auto simp: exists_def remove_def save_png_def)
  from hide_valid(2) [OF img valid cap size c ps prep fs1_def lsb refl this] show ?thesis
    by blast
qed

lemma hide_message_too_long:
  assumes img: "fs cover = Some (ImageFile img)"
    and valid: "validate_image fs cover = Inr (True, msg, stats)"
    and rgb: "mode img \<in> set [''RGB'', ''RGBA'']"
    and d: "body img = Inr d"
    and cap: "calculate_capacity fs cover = Inr cap"
    and nonempty: "p \<noteq> []"
    and size: "int (length (utf8_encode p)) \<le> cap"
    and prep: "with_suffix cover ''.png'' = Inr prep"
    and long: "3 * (width img * height img) < 8 * (length p + 2)"
  shows "snd (hide fs cover p out) = Inl (Library (MessageTooLongError (length p)))"
proof -
  define fs1 where "fs1 = save_png fs prep
              \<lparr>format = None, mode = mode img, width = width img, height = height img,
               info = [], body = Inr d\<rparr>"
  have c: "(if mode img \<notin> set [''RGB'', ''RGBA''] then convert_RGB img else Inr img) = Inr img"
    using rgb by simp
  have "1 \<le> length (str (length p))"
    using str_nonempty [of "length p"] by (cases "str (length p)") simp_all
  then have "8 * (length p + 2) \<le> 8 * (length (str (length p)) + 1 + length p)" by arith
  with length_message_bits_bounds(1) [of p] long
  have "3 * (width img * height img) < length (message_bits p)" by linarith
  then have "width img * height img * 3 < length (message_bits p)" by (simp add: mult.commute)
  then have "lsb_hide fs1 prep p = Inl (MessageTooLongError (length p))"
    using nonempty rgb
    by (auto simp: lsb_hide_def fs1_def Image_open_save_png Let_def)
  from hide_valid(1) [OF img valid cap size c d prep fs1_def this] show ?thesis by simp
qed



lemma hide_overwrites_cover:
  assumes img: "fs cover = Some (ImageFile img)"
    and valid: "validate_image fs cover = Inr (True, msg, stats)"
    and cap: "calculate_capacity fs cover = Inr cap"
    and size: "int (length (utf8_encode p)) \<le> cap"
    and c: "(if mode img \<notin> set [''RGB'', ''RGBA''] then convert_RGB img else Inr img) = Inr c"
    and d: "body c = Inr d"
    and prep: "with_suffix cover ''.png'' = Inr cover"
    and out: "out \<noteq> cover"
  shows "fst (hide fs cover p out) cover =
           Some (ImageFile \<lparr>format = Some ''PNG'', mode = mode c, width = width c,
                   height = height c, info = [], body = Inr d\<rparr>)"
proof -
  from validate_image_valid [OF valid] cap have
    cb: "stats ''capacity_bytes'' = Some (IntV cap)"
    by auto
  note pr = prepare_image_image [where fs = fs and cover = cover, OF img c d prep]
  show ?thesis using size out
    by (simp add: hide_def valid cb pr Let_def save_png_def split: sum.splits)
qed

lemma hide_cover_unchanged:
  assumes prep: "with_suffix cover ''.png'' \<noteq> Inr cover" and out: "out \<noteq> cover"
  shows "fst (hide fs cover p out) cover = fs cover"
proof -
  obtain ok msg stats where v: "validate_image fs cover = Inr (ok, msg, stats)"
    using validate_image_returns by blast
  show ?thesis
  proof (cases ok)
    case False
    with v show ?thesis by (simp add: hide_def)
  next
    case True
    with v have v: "validate_image fs cover = Inr (True, msg, stats)" by simp
    from validate_image_valid [OF v] obtain img cap where
      img: "fs cover = Some (ImageFile img)"
      and cb: "stats ''capacity_bytes'' = Some (IntV cap)"
      by auto
    have frame: "fst (prepare_image fs cover None) cover = fs cover"
      "\<And>q. snd (prepare_image fs cover None) = Inr q \<Longrightarrow> q \<noteq> cover"
      using prep
      by (auto simp: prepare_image_def Image_open_def img Let_def save_png_def
          split: sum.splits if_splits)
    obtain fs1 r where pr: "prepare_image fs cover None = (fs1, r)"
      by (cases "prepare_image fs cover None")
    with frame have f1: "fs1 cover = fs cover" and ne: "\<And>q. r = Inr q \<Longrightarrow> q \<noteq> cover"
      by auto
    show ?thesis using out f1 ne
      by (cases r)
         (auto simp: hide_def v cb pr Let_def save_png_def remove_def exists_def
          split: sum.splits)
  qed
qed

lemma with_suffix_examples:
  "with_suffix ''uploads/photo.bmp'' ''.png'' = Inr ''uploads/photo.png''"
  "with_suffix ''uploads/logo.png'' ''.png'' = Inr ''uploads/logo.png''"
  "with_suffix ''uploads/scan.png'' ''.png'' = Inr ''uploads/scan.png''"
  by (simp_all add: with_suffix_def path_name_def path_suffix_def Let_def)

lemma uploads_files:
  "uploads ''uploads/photo.bmp'' = Some (ImageFile rgb_cover)"
  "uploads ''uploads/logo.png'' = Some (ImageFile rgba_cover)"
  "uploads ''uploads/scan.png'' = Some (ImageFile grey_cover)"
  "uploads ''uploads/torn.png'' = Some (ImageFile torn_photo)"
  by (simp_all add: uploads_def)

lemma uploads_valid:
  "validate_image uploads ''uploads/photo.bmp'' =
     Inr (True, ValidMsg 100 100 3550,
          [''width'' \<mapsto> IntV 100, ''height'' \<mapsto> IntV 100, ''format'' \<mapsto> StrV ''BMP'',
           ''mode'' \<mapsto> StrV ''RGB'', ''pixels'' \<mapsto> IntV 10000,
           ''capacity_bytes'' \<mapsto> IntV 3550, ''capacity_kb'' \<mapsto> QuotV 3550 1024])"
  "validate_image uploads ''uploads/logo.png'' =
     Inr (True, ValidMsg 100 100 4800,
          [''width'' \<mapsto> IntV 100, ''height'' \<mapsto> IntV 100, ''format'' \<mapsto> StrV ''PNG'',
           ''mode'' \<mapsto> StrV ''RGBA'', ''pixels'' \<mapsto> IntV 10000,
           ''capacity_bytes'' \<mapsto> IntV 4800, ''capacity_kb'' \<mapsto> QuotV 4800 1024])"
  "validate_image uploads ''uploads/scan.png'' =
     Inr (True, ValidMsg 100 100 3550,
          [''width'' \<mapsto> IntV 100, ''height'' \<mapsto> IntV 100, ''format'' \<mapsto> StrV ''PNG'',
           ''mode'' \<mapsto> StrV ''L'', ''pixels'' \<mapsto> IntV 10000,
           ''capacity_bytes'' \<mapsto> IntV 3550, ''capacity_kb'' \<mapsto> QuotV 3550 1024])"
  "validate_image uploads ''uploads/torn.png'' =
     Inr (True, ValidMsg 200 200 14800,
          [''width'' \<mapsto> IntV 200, ''height'' \<mapsto> IntV 200, ''format'' \<mapsto> StrV ''PNG'',
           ''mode'' \<mapsto> StrV ''RGB'', ''pixels'' \<mapsto> IntV 40000,
           ''capacity_bytes'' \<mapsto> IntV 14800, ''capacity_kb'' \<mapsto> QuotV 14800 1024])"
  by (simp_all add: validate_image_def validate_image_body_def exists_def Image_open_def
      calculate_capacity_def METADATA_OVERHEAD_def convert_RGB_def
      uploads_def rgb_cover_def rgba_cover_def grey_cover_def torn_photo_def
      SUPPORTED_FORMATS_def MIN_DIMENSION_def Let_def)

lemma uploads_capacity:
  "calculate_capacity uploads ''uploads/photo.bmp'' = Inr 3550"
  "calculate_capacity uploads ''uploads/logo.png'' = Inr 4800"
  "calculate_capacity uploads ''uploads/scan.png'' = Inr 3550"
  "calculate_capacity uploads ''uploads/torn.png'' = Inr 14800"
  by (simp_all add: calculate_capacity_def Image_open_def METADATA_OVERHEAD_def convert_RGB_def
      uploads_def rgb_cover_def rgba_cover_def grey_cover_def torn_photo_def Let_def)

lemma uploads_wf: "wf_image rgb_cover" "wf_image rgba_cover" "wf_image grey_cover"
  by (simp_all add: wf_image_def npixels_def rgb_cover_def rgba_cover_def grey_cover_def)

lemma utf8_encode_secret: "utf8_encode ''c2VjcmV0'' = ''c2VjcmV0''"
  by (rule utf8_encode_ascii) (simp add: ord_def)

lemma utf8_encode_replicate_A: "utf8_encode (replicate n CHR ''A'') = replicate n CHR ''A''"
  by (rule utf8_encode_ascii) (simp add: ord_def)

lemma uploads_body:
  "body rgb_cover = Inr (RGB (replicate 10000 (0, 0, 0)))"
  "body rgba_cover = Inr (RGBA (replicate 10000 ((0, 0, 0), 255)))"
  "body grey_cover = Inr (Other (replicate 10000 [7]) (Inr (replicate 10000 (7, 7, 7))))"
  "body torn_photo = Inl OSError"
  by (simp_all add: rgb_cover_def rgba_cover_def grey_cover_def torn_photo_def)

lemma uploads_mode:
  "mode rgb_cover = ''RGB''" "mode rgba_cover = ''RGBA''" "mode grey_cover = ''L''"
  "mode torn_photo = ''RGB''"
  by (simp_all add: rgb_cover_def rgba_cover_def grey_cover_def torn_photo_def)

lemma uploads_size:
  "width rgb_cover = 100" "height rgb_cover = 100"
  "width rgba_cover = 100" "height rgba_cover = 100"
  by (simp_all add: rgb_cover_def rgba_cover_def)

lemma grey_cover_converted:
  "convert_RGB grey_cover =
     Inr \<lparr>format = None, mode = ''RGB'', width = 100, height = 100,
          info = [(''dpi'', ''300'')], body = Inr (RGB (replicate 10000 (7, 7, 7)))\<rparr>"
  by (simp add: convert_RGB_def grey_cover_def)




text \<open>
  Claim C6 fails on the code. The capacity of an RGBA cover counts four channels per
  pixel, but the embedding writes three bits per pixel: for the 100 by 100 RGBA cover the
  capacity is 4800 bytes, and \<open>hide\<close> with a payload of exactly 4800 bytes raises the
  library's exception for a message that is too long. A cover with an intact header and
  a truncated body passes \<open>validate_image\<close> as well, and \<open>hide\<close> raises the error of
  loading it. The other half of the claim holds for every valid cover (lemma
  \<open>hide_payload_too_large\<close>), and \<open>hide\<close> returns at exactly the capacity for a cover
  that is not RGBA and whose pixel data loads (lemma \<open>hide_succeeds\<close>).
\<close>

theorem hide_at_capacity_fails:
  "(\<exists>msg stats. validate_image uploads ''uploads/logo.png'' = Inr (True, msg, stats) \<and>
      stats ''capacity_bytes'' = Some (IntV 4800)) \<and>
   length (utf8_encode (replicate 4800 CHR ''A'')) = 4800 \<and>
   snd (hide uploads ''uploads/logo.png'' (replicate 4800 CHR ''A'') ''uploads/stego.png'') =
     Inl (Library (MessageTooLongError 4800)) \<and>
   (\<exists>msg stats. validate_image uploads ''uploads/torn.png'' = Inr (True, msg, stats) \<and>
      stats ''capacity_bytes'' = Some (IntV 14800)) \<and>
   hide uploads ''uploads/torn.png'' ''c2VjcmV0'' ''uploads/stego.png'' =
     (uploads, Inl (Library OSError))"
proof -
  have m: "mode rgba_cover \<in> set [''RGB'', ''RGBA'']" by (simp add: uploads_mode)
  have p: "replicate 4800 CHR ''A'' \<noteq> []"
    "int (length (utf8_encode (replicate 4800 CHR ''A''))) \<le> 4800"
    by (simp_all add: utf8_encode_replicate_A)
  have long: "3 * (width rgba_cover * height rgba_cover) < 8 * (length (replicate 4800 CHR ''A'') + 2)"
    by (simp add: uploads_size)
  have "snd (hide uploads ''uploads/logo.png'' (replicate 4800 CHR ''A'') ''uploads/stego.png'') =
     Inl (Library (MessageTooLongError (length (replicate 4800 CHR ''A''))))"
    by (rule hide_message_too_long [OF uploads_files(2) uploads_valid(2) m uploads_body(2)
          uploads_capacity(2) p with_suffix_examples(2) long])
  moreover have m': "mode torn_photo \<in> set [''RGB'', ''RGBA'']" by (simp add: uploads_mode)
  have s: "int (length (utf8_encode ''c2VjcmV0'')) \<le> 14800" by (simp add: utf8_encode_secret)
  have "hide uploads ''uploads/torn.png'' ''c2VjcmV0'' ''uploads/stego.png'' =
     (uploads, Inl (Library OSError))"
    by (rule hide_unreadable [OF uploads_files(4) uploads_valid(4) uploads_capacity(4) s m'
          uploads_body(4)])
  ultimately show ?thesis
    by (simp add: uploads_valid utf8_encode_replicate_A)
qed

text \<open>
  Claim C8 fails on the code. \<open>prepare_image\<close> writes the prepared image to
  \<^verbatim>\<open>Path(cover).with_suffix('.png')\<close>, which is the cover itself when the cover is named
  \<^verbatim>\<open>.png\<close>: the greyscale cover with a resolution tag is replaced by its RGB conversion
  without metadata. The test \<^verbatim>\<open>prepared_path != cover_path\<close> only keeps the cover from
  being deleted. A cover with another suffix is left as it was, for an output path other
  than the cover (lemma \<open>hide_cover_unchanged\<close>).
\<close>

theorem hide_overwrites_png_cover:
  "uploads ''uploads/scan.png'' = Some (ImageFile grey_cover) \<and>
   (\<exists>fs' st. hide uploads ''uploads/scan.png'' ''c2VjcmV0'' ''uploads/stego.png'' = (fs', Inr st)) \<and>
   fst (hide uploads ''uploads/scan.png'' ''c2VjcmV0'' ''uploads/stego.png'') ''uploads/scan.png'' =
     Some (ImageFile \<lparr>format = Some ''PNG'', mode = ''RGB'', width = 100, height = 100,
             info = [], body = Inr (RGB (replicate 10000 (7, 7, 7)))\<rparr>) \<and>
   fst (hide uploads ''uploads/scan.png'' ''c2VjcmV0'' ''uploads/stego.png'') ''uploads/scan.png'' \<noteq>
     uploads ''uploads/scan.png''"
proof -
  let ?c = "\<lparr>format = None, mode = ''RGB'', width = 100, height = 100,
          info = [(''dpi'', ''300'')], body = Inr (RGB (replicate 10000 (7, 7, 7)))\<rparr>"
  have m: "mode grey_cover \<noteq> ''RGBA''" by (simp add: uploads_mode)
  have p: "''c2VjcmV0'' \<noteq> []" "int (length (utf8_encode ''c2VjcmV0'')) \<le> 3550"
    "length ''c2VjcmV0'' < 10 ^ 198"
    by (simp_all add: utf8_encode_secret)
  have out: "''uploads/stego.png'' \<noteq> ''uploads/scan.png'' \<or>
      ''uploads/scan.png'' = ''uploads/scan.png''"
    by simp
  have ne: "''uploads/stego.png'' \<noteq> ''uploads/scan.png''" by simp
  have ok: "\<exists>fs' st. hide uploads ''uploads/scan.png'' ''c2VjcmV0'' ''uploads/stego.png'' = (fs', Inr st)"
    by (rule hide_succeeds [OF uploads_files(3) uploads_wf(3) uploads_body(3) uploads_valid(3) m
          uploads_capacity(3) p with_suffix_examples(3) out])
  have c: "(if mode grey_cover \<notin> set [''RGB'', ''RGBA''] then convert_RGB grey_cover
            else Inr grey_cover) = Inr ?c"
    by (simp add: uploads_mode grey_cover_converted)
  have d: "body ?c = Inr (RGB (replicate 10000 (7, 7, 7)))" by simp
  have "fst (hide uploads ''uploads/scan.png'' ''c2VjcmV0'' ''uploads/stego.png'') ''uploads/scan.png'' =
     Some (ImageFile \<lparr>format = Some ''PNG'', mode = mode ?c, width = width ?c,
             height = height ?c, info = [], body = Inr (RGB (replicate 10000 (7, 7, 7)))\<rparr>)"
    by (rule hide_overwrites_cover [OF uploads_files(3) uploads_valid(3) uploads_capacity(3) p(2)
          c d with_suffix_examples(3) ne])
  then have "fst (hide uploads ''uploads/scan.png'' ''c2VjcmV0'' ''uploads/stego.png'') ''uploads/scan.png'' =
     Some (ImageFile \<lparr>format = Some ''PNG'', mode = ''RGB'', width = 100, height = 100,
             info = [], body = Inr (RGB (replicate 10000 (7, 7, 7)))\<rparr>)"
    by simp
  with ok show ?thesis
    by (simp add: uploads_files grey_cover_def)
qed

section \<open>Properties of the encryption engine\<close>

lemma encrypt_not_key_size: "snd (encrypt lib self w plaintext metadata) \<noteq> Inl InvalidKeySize"
  by (simp add: encrypt_def Let_def split: prod.splits sum.splits)

lemma decrypt_not_key_size: "decrypt lib self bundle \<noteq> Inl InvalidKeySize"
  by (simp add: decrypt_def Let_def split: sum.splits)

text \<open>
  Claim C5. The engine is built from the key before anything else (\<open>init\<close> is the
  constructor; \<open>quick_encrypt\<close> and \<open>quick_decrypt\<close> build the engine first). A key whose
  length is not 32 is refused with the key-size error, by the constructor and so by
  encryption and decryption, which then leave the world as it was. A key of length 32 is
  taken as it is: the engine holds the very key, and neither encryption nor decryption
  fails with the key-size error.
\<close>

theorem key_size_checked:
  "(length key \<noteq> 32 \<longrightarrow>
      init lib key = Inl InvalidKeySize \<and>
      quick_encrypt lib w key data metadata = (w, Inl InvalidKeySize) \<and>
      quick_decrypt lib key bundle_str = Inl InvalidKeySize) \<and>
   (length key = 32 \<longrightarrow>
      (\<exists>self. init lib key = Inr self \<and> aesgcm self = key) \<and>
      snd (quick_encrypt lib w key data metadata) \<noteq> Inl InvalidKeySize \<and>
      quick_decrypt lib key bundle_str \<noteq> Inl InvalidKeySize)"
proof (intro conjI impI)
  assume "length key \<noteq> 32"
  then show "init lib key = Inl InvalidKeySize"
    "quick_encrypt lib w key data metadata = (w, Inl InvalidKeySize)"
    "quick_decrypt lib key bundle_str = Inl InvalidKeySize"
    by (simp_all add: init_def quick_encrypt_def quick_decrypt_def KEY_SIZE_def)
next
  assume k: "length key = 32"
  then show "\<exists>self. init lib key = Inr self \<and> aesgcm self = key"
    by (simp add: init_def KEY_SIZE_def)
  from k obtain self where s: "init lib key = Inr self" by (simp add: init_def KEY_SIZE_def)
  show "snd (quick_encrypt lib w key data metadata) \<noteq> Inl InvalidKeySize"
    using encrypt_not_key_size [of lib self w data metadata]
    by (auto simp: quick_encrypt_def s split: prod.splits sum.splits)
  show "quick_decrypt lib key bundle_str \<noteq> Inl InvalidKeySize"
    using decrypt_not_key_size [of lib self]
    by (auto simp: quick_decrypt_def s split: sum.splits)
qed

theorem key_size_checked_witness:
  "\<forall>lib w data metadata bundle_str.
     init lib (replicate 16 (CHR ''k'')) = Inl InvalidKeySize \<and>
     quick_encrypt lib w (replicate 16 (CHR ''k'')) data metadata = (w, Inl InvalidKeySize) \<and>
     quick_decrypt lib (replicate 33 (CHR ''k'')) bundle_str = Inl InvalidKeySize \<and>
     (\<exists>self. init lib (replicate 32 (CHR ''k'')) = Inr self \<and>
        aesgcm self = replicate 32 (CHR ''k'')) \<and>
     snd (quick_encrypt lib w (replicate 32 (CHR ''k'')) data metadata) \<noteq> Inl InvalidKeySize"
proof (intro allI)
  fix lib :: crypto_lib and w :: world and data :: bytes and metadata :: "ref option"
    and bundle_str :: string
  show "init lib (replicate 16 (CHR ''k'')) = Inl InvalidKeySize \<and>
     quick_encrypt lib w (replicate 16 (CHR ''k'')) data metadata = (w, Inl InvalidKeySize) \<and>
     quick_decrypt lib (replicate 33 (CHR ''k'')) bundle_str = Inl InvalidKeySize \<and>
     (\<exists>self. init lib (replicate 32 (CHR ''k'')) = Inr self \<and>
        aesgcm self = replicate 32 (CHR ''k'')) \<and>
     snd (quick_encrypt lib w (replicate 32 (CHR ''k'')) data metadata) \<noteq> Inl InvalidKeySize"
    using key_size_checked [of "replicate 16 (CHR ''k'')" lib w data metadata bundle_str]
      key_size_checked [of "replicate 33 (CHR ''k'')" lib w data metadata bundle_str]
      key_size_checked [of "replicate 32 (CHR ''k'')" lib w data metadata bundle_str]
    by simp
qed

lemma encrypt_world:
  "fst (encrypt lib self w plaintext metadata) =
     (case metadata of
        None \<Rightarrow> w\<lparr>drawn := drawn w + 12\<rparr>
      | Some r \<Rightarrow>
          (case objects w r of
             None \<Rightarrow> w\<lparr>drawn := drawn w + 12\<rparr>
           | Some d \<Rightarrow>
               if d = [] then w\<lparr>drawn := drawn w + 12\<rparr>
               else w\<lparr>drawn := drawn w + 12,
                      objects := (objects w)(r \<mapsto> dict_update d
                        [(''version'', JStr VERSION),
                         (''timestamp'', JStr (utcnow w)),
                         (''key_hash'', JStr (key_hash self)),
                         (''size'', JInt (int (length plaintext)))])\<rparr>))"
  by (simp add: encrypt_def urandom_def NONCE_SIZE_def Let_def
      split: option.splits sum.splits prod.splits)

text \<open>
  Claim C9 fails on the code. With a non-empty metadata dictionary, \<^verbatim>\<open>metadata or {}\<close> is
  the caller's own object, and \<^verbatim>\<open>meta.update\<close> writes the four generated entries into
  it: after \<open>encrypt\<close> the caller's dictionary \<^verbatim>\<open>{'filename': 'msg.txt'}\<close> holds five
  entries, whatever the cipher, the key and the plaintext. Apart from that object and the
  twelve bytes drawn from the generator, \<open>encrypt\<close> leaves the world as it was (lemma
  \<open>encrypt_world\<close>).
\<close>

theorem encrypt_mutates_metadata:
  "\<forall>lib self plaintext.
     objects caller_world 0 = Some [(''filename'', JStr ''msg.txt'')] \<and>
     objects (fst (encrypt lib self caller_world plaintext (Some 0))) 0 =
       Some [(''filename'', JStr ''msg.txt''),
             (''version'', JStr ''v2.0''),
             (''timestamp'', JStr ''2024-01-01T00:00:00''),
             (''key_hash'', JStr (key_hash self)),
             (''size'', JInt (int (length plaintext)))]"
  by (simp add: encrypt_world caller_world_def dict_update_def dict_set_def VERSION_def)

end
